theory Spec2Isabelle
  imports Main "HOL-Library.Word"
begin

section \<open>The firmware's view of the outside world\<close>

text \<open>
  \<^verbatim>\<open>app_httpd.cpp\<close> computes nothing by itself: every function is a sequence of calls into
  the PWM driver, the camera driver, the JPEG converter, the HTTP server and the serial
  port. The model records each call, with its arguments and with what the callee
  answered, in a trace that the functions thread through and extend at its end. What a
  callee answers is not decided by the firmware; it is read from an environment that
  the theorems quantify over.
\<close>

type_synonym pin = nat
type_synonym u32 = "32 word"
type_synonym bytes = string
type_synonym esp_err_t = int

definition ESP_OK :: esp_err_t where
  "ESP_OK = 0"

definition ESP_FAIL :: esp_err_t where
  "ESP_FAIL = - 1"

datatype pin_mode = INPUT | OUTPUT

text \<open>
  The pixel format of a frame. The handlers only ask whether it is \<^verbatim>\<open>PIXFORMAT_JPEG\<close>;
  \<open>PIXFORMAT_RAW\<close> stands for the uncompressed sensor formats, which all take the other
  branch.
\<close>

datatype pixformat_t = PIXFORMAT_JPEG | PIXFORMAT_RAW

text \<open>
  \<^verbatim>\<open>camera_fb_t\<close>, as far as the handlers read it: the data that \<^verbatim>\<open>buf\<close> points to,
  the length field and the pixel format. The length is a \<^verbatim>\<open>size_t\<close>, 32 bits wide on
  the ESP32.
\<close>

record camera_fb =
  buf :: bytes
  len :: u32
  format :: pixformat_t

text \<open>
  A \<^verbatim>\<open>uint8_t *\<close> held in \<^verbatim>\<open>_jpg_buf\<close> points either into a frame buffer (memory of
  the camera driver) or at a buffer that \<^verbatim>\<open>frame2jpg\<close> allocated on the heap.
\<close>

datatype buf_ptr = FrameData bytes | HeapData bytes

fun deref :: "buf_ptr \<Rightarrow> bytes" where
  "deref (FrameData b) = b"
| "deref (HeapData b) = b"

datatype event =
    PinMode pin pin_mode
  | LedcAttach pin nat nat
  | LedcWrite pin u32
  | SerialPrintln string
  | CameraFbGet "camera_fb option"
  | CameraFbReturn camera_fb
  | Frame2Jpg camera_fb nat "(bytes \<times> u32) option"
  | Free buf_ptr
  | RespSetType string esp_err_t
  | RespSetHdr string string
  | RespSendChunk bytes esp_err_t
  | RespSend bytes esp_err_t
  | RespSend500

type_synonym trace = "event list"

subsection \<open>Arduino calls\<close>

definition pinMode :: "pin \<Rightarrow> pin_mode \<Rightarrow> trace \<Rightarrow> trace" where
  "pinMode p m w = w @ [PinMode p m]"

definition ledcAttach :: "pin \<Rightarrow> nat \<Rightarrow> nat \<Rightarrow> trace \<Rightarrow> trace" where
  "ledcAttach p freq resolution w = w @ [LedcAttach p freq resolution]"

definition ledcWrite :: "pin \<Rightarrow> u32 \<Rightarrow> trace \<Rightarrow> trace" where
  "ledcWrite p d w = w @ [LedcWrite p d]"

definition Serial_println :: "string \<Rightarrow> trace \<Rightarrow> trace" where
  "Serial_println s w = w @ [SerialPrintln s]"

text \<open>
  \<^verbatim>\<open>speed\<close> is a C \<^verbatim>\<open>int\<close>; \<^verbatim>\<open>ledcWrite\<close> takes the duty as \<^verbatim>\<open>uint32_t\<close>, so the
  call converts it modulo \<open>2 ^ 32\<close>.
\<close>

definition duty_arg :: "int \<Rightarrow> u32" where
  "duty_arg speed = word_of_int speed"

section \<open>Motor control\<close>

definition LEFT_M0 :: pin where
  "LEFT_M0 = 13"

definition LEFT_M1 :: pin where
  "LEFT_M1 = 12"

definition RIGHT_M0 :: pin where
  "RIGHT_M0 = 14"

definition RIGHT_M1 :: pin where
  "RIGHT_M1 = 15"

definition robot_stop :: "trace \<Rightarrow> trace" where
  "robot_stop w0 =
     (let w1 = ledcWrite LEFT_M0 0 w0;
          w2 = ledcWrite LEFT_M1 0 w1;
          w3 = ledcWrite RIGHT_M0 0 w2;
          w4 = ledcWrite RIGHT_M1 0 w3
      in Serial_println ''Motors: STOP'' w4)"

definition robot_left :: "int \<Rightarrow> trace \<Rightarrow> trace" where
  "robot_left speed w0 =
     (let w1 = ledcWrite LEFT_M0 0 w0;
          w2 = ledcWrite LEFT_M1 (duty_arg speed) w1;
          w3 = ledcWrite RIGHT_M0 0 w2;
          w4 = ledcWrite RIGHT_M1 (duty_arg speed) w3
      in Serial_println ''Motors: FORWARD'' w4)"

definition robot_right :: "int \<Rightarrow> trace \<Rightarrow> trace" where
  "robot_right speed w0 =
     (let w1 = ledcWrite LEFT_M0 (duty_arg speed) w0;
          w2 = ledcWrite LEFT_M1 0 w1;
          w3 = ledcWrite RIGHT_M0 (duty_arg speed) w2;
          w4 = ledcWrite RIGHT_M1 0 w3
      in Serial_println ''Motors: BACKWARD'' w4)"

definition robot_fwd :: "int \<Rightarrow> trace \<Rightarrow> trace" where
  "robot_fwd speed w0 =
     (let w1 = ledcWrite LEFT_M0 (duty_arg speed) w0;
          w2 = ledcWrite LEFT_M1 0 w1;
          w3 = ledcWrite RIGHT_M0 0 w2;
          w4 = ledcWrite RIGHT_M1 (duty_arg speed) w3
      in Serial_println ''Motors: LEFT'' w4)"

definition robot_back :: "int \<Rightarrow> trace \<Rightarrow> trace" where
  "robot_back speed w0 =
     (let w1 = ledcWrite LEFT_M0 0 w0;
          w2 = ledcWrite LEFT_M1 (duty_arg speed) w1;
          w3 = ledcWrite RIGHT_M0 (duty_arg speed) w2;
          w4 = ledcWrite RIGHT_M1 0 w3
      in Serial_println ''Motors: RIGHT'' w4)"

definition robot_setup :: "trace \<Rightarrow> trace" where
  "robot_setup w0 =
     (let w1 = Serial_println ''Initializing motors...'' w0;
          w2 = pinMode LEFT_M0 OUTPUT w1;
          w3 = pinMode LEFT_M1 OUTPUT w2;
          w4 = pinMode RIGHT_M0 OUTPUT w3;
          w5 = pinMode RIGHT_M1 OUTPUT w4;
          w6 = ledcAttach LEFT_M0 2000 8 w5;
          w7 = ledcAttach LEFT_M1 2000 8 w6;
          w8 = ledcAttach RIGHT_M0 2000 8 w7;
          w9 = ledcAttach RIGHT_M1 2000 8 w8;
          w10 = robot_stop w9
      in Serial_println ''Motors initialized'' w10)"

subsection \<open>Reading the PWM state off a trace\<close>

text \<open>The duty-cycle writes of a trace, in the order they were issued.\<close>

fun pwm_writes :: "trace \<Rightarrow> (pin \<times> u32) list" where
  "pwm_writes [] = []"
| "pwm_writes (LedcWrite p d # es) = (p, d) # pwm_writes es"
| "pwm_writes (_ # es) = pwm_writes es"

text \<open>
  The duty cycle a channel is left with: the last value written to its pin, or \<open>None\<close>
  for a pin that was never written.
\<close>

definition duty :: "pin \<Rightarrow> trace \<Rightarrow> u32 option" where
  "duty p w = map_of (rev (pwm_writes w)) p"

text \<open>The channels that a list of writes drives, that is, writes a nonzero duty to.\<close>

definition driven :: "(pin \<times> u32) list \<Rightarrow> pin set" where
  "driven ws = set (map fst (filter (\<lambda>pd. snd pd \<noteq> 0) ws))"

text \<open>What a call appends to the trace it is given.\<close>

definition issued :: "(trace \<Rightarrow> trace) \<Rightarrow> trace \<Rightarrow> trace" where
  "issued f w = drop (length w) (f w)"

text \<open>
  The contract the specification puts on a direction: four writes, one to each motor
  channel, two of them with the motor speed as duty and two with duty 0.
\<close>

definition drives_two :: "int \<Rightarrow> (pin \<times> u32) list \<Rightarrow> bool" where
  "drives_two speed ws \<longleftrightarrow>
     length ws = 4 \<and> distinct (map fst ws) \<and>
     set (map fst ws) = {LEFT_M0, LEFT_M1, RIGHT_M0, RIGHT_M1} \<and>
     length (filter (\<lambda>pd. uint (snd pd) = speed) ws) = 2 \<and>
     length (filter (\<lambda>pd. snd pd = 0) ws) = 2"

section \<open>Camera, converter and HTTP server calls\<close>

text \<open>
  Each call takes the callee's answer as an argument, records the call with that answer
  and hands the answer back. \<^verbatim>\<open>frame2jpg\<close> answers \<open>Some (b, n)\<close> when it has allocated
  a buffer \<open>b\<close> and stored it with its length \<open>n\<close> through the two out pointers, and
  \<open>None\<close> when it returns \<^verbatim>\<open>false\<close> and leaves them alone. A send of \<open>n\<close> bytes from a
  buffer puts the first \<open>n\<close> bytes of the buffer on the wire.
\<close>

definition esp_camera_fb_get :: "camera_fb option \<Rightarrow> trace \<Rightarrow> camera_fb option \<times> trace" where
  "esp_camera_fb_get answer w = (answer, w @ [CameraFbGet answer])"

definition esp_camera_fb_return :: "camera_fb \<Rightarrow> trace \<Rightarrow> trace" where
  "esp_camera_fb_return f w = w @ [CameraFbReturn f]"

definition frame2jpg ::
  "camera_fb \<Rightarrow> nat \<Rightarrow> (bytes \<times> u32) option \<Rightarrow> trace \<Rightarrow> (bytes \<times> u32) option \<times> trace" where
  "frame2jpg f quality answer w = (answer, w @ [Frame2Jpg f quality answer])"

definition free :: "buf_ptr \<Rightarrow> trace \<Rightarrow> trace" where
  "free p w = w @ [Free p]"

definition httpd_resp_set_type :: "string \<Rightarrow> esp_err_t \<Rightarrow> trace \<Rightarrow> esp_err_t \<times> trace" where
  "httpd_resp_set_type ty answer w = (answer, w @ [RespSetType ty answer])"

definition httpd_resp_set_hdr :: "string \<Rightarrow> string \<Rightarrow> trace \<Rightarrow> trace" where
  "httpd_resp_set_hdr field val w = w @ [RespSetHdr field val]"

definition httpd_resp_send_chunk :: "bytes \<Rightarrow> nat \<Rightarrow> esp_err_t \<Rightarrow> trace \<Rightarrow> esp_err_t \<times> trace" where
  "httpd_resp_send_chunk b n answer w = (answer, w @ [RespSendChunk (take n b) answer])"

definition httpd_resp_send :: "bytes \<Rightarrow> nat \<Rightarrow> esp_err_t \<Rightarrow> trace \<Rightarrow> esp_err_t \<times> trace" where
  "httpd_resp_send b n answer w = (answer, w @ [RespSend (take n b) answer])"

definition httpd_resp_send_500 :: "trace \<Rightarrow> trace" where
  "httpd_resp_send_500 w = w @ [RespSend500]"

subsection \<open>C strings\<close>

definition NUL :: char where
  "NUL = CHR 0x00"

definition CRLF :: string where
  "CRLF = [CHR 0x0D, CHR 0x0A]"

definition strlen :: "string \<Rightarrow> nat" where
  "strlen s = length (takeWhile (\<lambda>c. c \<noteq> NUL) s)"

text \<open>The conversion \<^verbatim>\<open>%u\<close>: a number in decimal, without leading zeros.\<close>

definition digit :: "nat \<Rightarrow> char" where
  "digit d = ''0123456789'' ! d"

function dec :: "nat \<Rightarrow> string" where
  "dec n = (if n < 10 then [digit n] else dec (n div 10) @ [digit (n mod 10)])"
  by pat_completeness auto
termination
  by (relation "measure id") auto

declare dec.simps [simp del]

text \<open>
  \<^verbatim>\<open>snprintf(dst, bound, ...)\<close>, given the text \<open>s\<close> that the format expands to: at most
  \<open>bound - 1\<close> characters of \<open>s\<close> and a terminating NUL overwrite the start of \<open>dst\<close>,
  the rest of \<open>dst\<close> stays as it was, and the value returned is the length of \<open>s\<close>,
  truncated or not.
\<close>

definition snprintf :: "bytes \<Rightarrow> nat \<Rightarrow> string \<Rightarrow> bytes \<times> nat" where
  "snprintf dst bound s =
     (if bound = 0 then (dst, length s)
      else (let written = take (bound - 1) s @ [NUL]
            in (written @ drop (length written) dst, length s)))"

subsection \<open>Streaming definitions\<close>

definition PART_BOUNDARY :: string where
  "PART_BOUNDARY = ''123456789000000000000987654321''"

definition STREAM_CONTENT_TYPE :: string where
  "STREAM_CONTENT_TYPE = ''multipart/x-mixed-replace;boundary='' @ PART_BOUNDARY"

definition STREAM_BOUNDARY :: string where
  "STREAM_BOUNDARY = CRLF @ ''--'' @ PART_BOUNDARY @ CRLF"

text \<open>The format \<^verbatim>\<open>_STREAM_PART\<close>, applied to its one argument.\<close>

definition STREAM_PART :: "u32 \<Rightarrow> string" where
  "STREAM_PART n =
     ''Content-Type: image/jpeg'' @ CRLF @ ''Content-Length: '' @ dec (unat n) @ CRLF @ CRLF"

section \<open>HTTP handlers\<close>

subsection \<open>The streaming handler\<close>

text \<open>
  The local variables of \<^verbatim>\<open>stream_handler\<close> (\<open>jpg_buf\<close> and \<open>jpg_buf_len\<close> stand for
  \<^verbatim>\<open>_jpg_buf\<close> and \<^verbatim>\<open>_jpg_buf_len\<close>, a null pointer is \<open>None\<close>), together with the
  trace so far. \<open>part_buf\<close> holds the bytes of the array \<^verbatim>\<open>char * part_buf[64]\<close>, which
  the handler uses as a character buffer.
\<close>

record stream_state =
  fb :: "camera_fb option"
  res :: esp_err_t
  jpg_buf_len :: u32
  jpg_buf :: "buf_ptr option"
  part_buf :: bytes
  out :: trace

text \<open>What the outside world answers during one pass through the loop body.\<close>

record iter_env =
  acq :: "camera_fb option"
  conv :: "(bytes \<times> u32) option"
  w_part :: esp_err_t
  w_body :: esp_err_t
  w_bound :: esp_err_t

text \<open>Lines 143 to 160: acquire a frame and make sure it is a JPEG.\<close>

definition stream_acquire :: "iter_env \<Rightarrow> stream_state \<Rightarrow> stream_state" where
  "stream_acquire e s =
     (let (got, w1) = esp_camera_fb_get (acq e) (out s);
          s1 = s\<lparr>fb := got, out := w1\<rparr>
      in case got of
           None \<Rightarrow> s1\<lparr>out := Serial_println ''Camera capture failed'' w1, res := ESP_FAIL\<rparr>
         | Some f \<Rightarrow>
             if format f \<noteq> PIXFORMAT_JPEG then
               (let (jpeg_converted, w2) = frame2jpg f 80 (conv e) w1;
                    s2 = (case jpeg_converted of
                            None \<Rightarrow> s1
                          | Some (b, n) \<Rightarrow> s1\<lparr>jpg_buf := Some (HeapData b), jpg_buf_len := n\<rparr>);
                    w3 = esp_camera_fb_return f w2;
                    s3 = s2\<lparr>fb := None, out := w3\<rparr>
                in if jpeg_converted = None
                   then s3\<lparr>out := Serial_println ''JPEG compression failed'' w3, res := ESP_FAIL\<rparr>
                   else s3)
             else s1\<lparr>jpg_buf_len := len f, jpg_buf := Some (FrameData (buf f))\<rparr>)"

text \<open>
  Lines 162 to 171: the part header, the JPEG bytes and the boundary, each sent only
  while \<open>res\<close> is still \<open>ESP_OK\<close>. The body is sent from \<open>jpg_buf\<close>, which is not null
  whenever \<open>res\<close> is \<open>ESP_OK\<close> here; the model sends nothing from a null pointer.
\<close>

definition stream_send :: "iter_env \<Rightarrow> stream_state \<Rightarrow> stream_state" where
  "stream_send e s =
     (let s1 = (if res s = ESP_OK then
                  (let (pb, hlen) = snprintf (part_buf s) 64 (STREAM_PART (jpg_buf_len s));
                       (r, w) = httpd_resp_send_chunk pb hlen (w_part e) (out s)
                   in s\<lparr>part_buf := pb, res := r, out := w\<rparr>)
                else s);
          s2 = (if res s1 = ESP_OK then
                  (let (r, w) = httpd_resp_send_chunk
                                  (case jpg_buf s1 of None \<Rightarrow> [] | Some p \<Rightarrow> deref p)
                                  (unat (jpg_buf_len s1)) (w_body e) (out s1)
                   in s1\<lparr>res := r, out := w\<rparr>)
                else s1)
      in if res s2 = ESP_OK then
           (let (r, w) = httpd_resp_send_chunk STREAM_BOUNDARY (strlen STREAM_BOUNDARY)
                           (w_bound e) (out s2)
            in s2\<lparr>res := r, out := w\<rparr>)
         else s2)"

text \<open>Lines 173 to 180: give back whichever buffer is still held.\<close>

definition stream_release :: "stream_state \<Rightarrow> stream_state" where
  "stream_release s =
     (case fb s of
        Some f \<Rightarrow> s\<lparr>out := esp_camera_fb_return f (out s), fb := None, jpg_buf := None\<rparr>
      | None \<Rightarrow>
          (case jpg_buf s of
             Some p \<Rightarrow> s\<lparr>out := free p (out s), jpg_buf := None\<rparr>
           | None \<Rightarrow> s))"

definition stream_iter :: "iter_env \<Rightarrow> stream_state \<Rightarrow> stream_state" where
  "stream_iter e s = stream_release (stream_send e (stream_acquire e s))"

text \<open>
  \<^verbatim>\<open>while(true)\<close> with its one \<^verbatim>\<open>break\<close>. The loop consumes one \<open>iter_env\<close> per pass. A
  finite list of them describes a finite stretch of an execution: when the list is used
  up and the loop has not left, it is \<open>Running\<close>, at the loop head, in the state given.
\<close>

datatype outcome = Returned esp_err_t trace | Running stream_state

fun stream_loop :: "iter_env list \<Rightarrow> stream_state \<Rightarrow> outcome" where
  "stream_loop [] s = Running s"
| "stream_loop (e # es) s =
     (let s' = stream_iter e s
      in if res s' \<noteq> ESP_OK then Returned (res s') (out s') else stream_loop es s')"

record stream_env =
  type_answer :: esp_err_t
  stack :: bytes
  frames :: "iter_env list"

text \<open>\<open>stack env\<close> is what the uninitialised \<^verbatim>\<open>part_buf\<close> happens to hold on entry.\<close>

definition stream_handler :: "stream_env \<Rightarrow> trace \<Rightarrow> outcome" where
  "stream_handler env w0 =
     (let s0 = \<lparr>fb = None, res = ESP_OK, jpg_buf_len = 0, jpg_buf = None,
                part_buf = stack env, out = w0\<rparr>;
          (r, w1) = httpd_resp_set_type STREAM_CONTENT_TYPE (type_answer env) w0;
          s1 = s0\<lparr>res := r, out := w1\<rparr>
      in if res s1 \<noteq> ESP_OK then Returned (res s1) (out s1)
         else stream_loop (frames env) s1)"

subsection \<open>The single-capture handler\<close>

record capture_env =
  cap_acq :: "camera_fb option"
  cap_type :: esp_err_t
  cap_conv :: "(bytes \<times> u32) option"
  cap_send :: esp_err_t

definition capture_handler :: "capture_env \<Rightarrow> trace \<Rightarrow> esp_err_t \<times> trace" where
  "capture_handler env w0 =
     (let (got, w1) = esp_camera_fb_get (cap_acq env) w0
      in case got of
           None \<Rightarrow>
             (let w2 = Serial_println ''Camera capture failed'' w1;
                  w3 = httpd_resp_send_500 w2
              in (ESP_FAIL, w3))
         | Some f \<Rightarrow>
             (let (_, w2) = httpd_resp_set_type ''image/jpeg'' (cap_type env) w1;
                  w3 = httpd_resp_set_hdr ''Content-Disposition''
                         ''inline; filename=capture.jpg'' w2;
                  (r, w4) =
                    (if format f = PIXFORMAT_JPEG
                     then httpd_resp_send (buf f) (unat (len f)) (cap_send env) w3
                     else
                       (let (jpeg_converted, w) = frame2jpg f 80 (cap_conv env) w3
                        in case jpeg_converted of
                             Some (b, n) \<Rightarrow>
                               (let (r, w') = httpd_resp_send b (unat n) (cap_send env) w
                                in (r, free (HeapData b) w'))
                           | None \<Rightarrow> (ESP_FAIL, w)));
                  w5 = esp_camera_fb_return f w4
              in (r, w5)))"

subsection \<open>The forward endpoint\<close>

definition go_handler :: "int \<Rightarrow> esp_err_t \<Rightarrow> esp_err_t \<Rightarrow> trace \<Rightarrow> esp_err_t \<times> trace" where
  "go_handler speed type_ans send_ans w0 =
     (let w1 = robot_fwd speed w0;
          (_, w2) = httpd_resp_set_type ''text/html'' type_ans w1
      in httpd_resp_send ''OK'' 2 send_ans w2)"

section \<open>Reading a trace\<close>

text \<open>The trace an outcome has reached.\<close>

fun final_trace :: "outcome \<Rightarrow> trace" where
  "final_trace (Returned r w) = w"
| "final_trace (Running s) = out s"

fun result :: "outcome \<Rightarrow> esp_err_t option" where
  "result (Returned r w) = Some r"
| "result (Running s) = None"

text \<open>
  Frame buffers: \<open>fb_held H w\<close> runs through \<open>w\<close> with the frame buffers \<open>H\<close> in hand. A
  successful acquire adds its buffer, a release takes one copy of its buffer away, and a
  release of a buffer that is not in hand (never acquired, or released before) is
  \<open>None\<close>. The result \<open>Some []\<close> from \<open>[]\<close> says that every acquire was followed by one
  release of its buffer and that nothing else was released.
\<close>

fun fb_held :: "camera_fb list \<Rightarrow> trace \<Rightarrow> camera_fb list option" where
  "fb_held H [] = Some H"
| "fb_held H (CameraFbGet (Some f) # es) = fb_held (f # H) es"
| "fb_held H (CameraFbReturn f # es) =
     (if f \<in> set H then fb_held (remove1 f H) es else None)"
| "fb_held H (_ # es) = fb_held H es"

fun acquired :: "trace \<Rightarrow> camera_fb list" where
  "acquired [] = []"
| "acquired (CameraFbGet (Some f) # es) = f # acquired es"
| "acquired (_ # es) = acquired es"

fun released :: "trace \<Rightarrow> camera_fb list" where
  "released [] = []"
| "released (CameraFbReturn f # es) = f # released es"
| "released (_ # es) = released es"

text \<open>The same for the buffers that \<^verbatim>\<open>frame2jpg\<close> allocates and \<^verbatim>\<open>free\<close> gives back.\<close>

fun jpg_held :: "buf_ptr list \<Rightarrow> trace \<Rightarrow> buf_ptr list option" where
  "jpg_held H [] = Some H"
| "jpg_held H (Frame2Jpg f q (Some (b, n)) # es) = jpg_held (HeapData b # H) es"
| "jpg_held H (Free p # es) =
     (if p \<in> set H then jpg_held (remove1 p H) es else None)"
| "jpg_held H (_ # es) = jpg_held H es"

fun allocated :: "trace \<Rightarrow> buf_ptr list" where
  "allocated [] = []"
| "allocated (Frame2Jpg f q (Some (b, n)) # es) = HeapData b # allocated es"
| "allocated (_ # es) = allocated es"

fun freed :: "trace \<Rightarrow> buf_ptr list" where
  "freed [] = []"
| "freed (Free p # es) = p # freed es"
| "freed (_ # es) = freed es"

text \<open>The payloads of the chunked writes, in the order they were written.\<close>

fun chunks :: "trace \<Rightarrow> bytes list" where
  "chunks [] = []"
| "chunks (RespSendChunk b r # es) = b # chunks es"
| "chunks (_ # es) = chunks es"

text \<open>Calls of \<^verbatim>\<open>esp_camera_fb_get\<close>, whatever they returned.\<close>

fun acquire_calls :: "trace \<Rightarrow> nat" where
  "acquire_calls [] = 0"
| "acquire_calls (CameraFbGet a # es) = Suc (acquire_calls es)"
| "acquire_calls (_ # es) = acquire_calls es"

text \<open>The trace from the first chunked write that failed.\<close>

fun from_failed_write :: "trace \<Rightarrow> trace" where
  "from_failed_write [] = []"
| "from_failed_write (RespSendChunk b r # es) =
     (if r \<noteq> ESP_OK then RespSendChunk b r # es else from_failed_write es)"
| "from_failed_write (_ # es) = from_failed_write es"

subsection \<open>Environments\<close>

text \<open>The JPEG that a pass sends, if the pass gets as far as having one.\<close>

definition frame_jpeg :: "iter_env \<Rightarrow> (bytes \<times> u32) option" where
  "frame_jpeg e =
     (case acq e of
        None \<Rightarrow> None
      | Some f \<Rightarrow> if format f = PIXFORMAT_JPEG then Some (buf f, len f) else conv e)"

text \<open>A pass in which every call succeeds.\<close>

definition iter_ok :: "iter_env \<Rightarrow> bool" where
  "iter_ok e \<longleftrightarrow>
     frame_jpeg e \<noteq> None \<and> w_part e = ESP_OK \<and> w_body e = ESP_OK \<and> w_bound e = ESP_OK"

text \<open>
  A pass in which a frame is acquired (and converted, where it has to be) and one of the
  chunked writes fails; \<open>first_failure\<close> is the error code of the write that fails first.
\<close>

definition write_fails :: "iter_env \<Rightarrow> bool" where
  "write_fails e \<longleftrightarrow>
     frame_jpeg e \<noteq> None \<and> \<not> (w_part e = ESP_OK \<and> w_body e = ESP_OK \<and> w_bound e = ESP_OK)"

definition first_failure :: "iter_env \<Rightarrow> esp_err_t" where
  "first_failure e =
     (if w_part e \<noteq> ESP_OK then w_part e
      else if w_body e \<noteq> ESP_OK then w_body e
      else w_bound e)"

text \<open>The three chunks of one part of the stream, as the loop body writes them.\<close>

definition frame_part :: "iter_env \<Rightarrow> bytes list" where
  "frame_part e =
     (case frame_jpeg e of
        None \<Rightarrow> []
      | Some (b, n) \<Rightarrow> [STREAM_PART n, take (unat n) b, STREAM_BOUNDARY])"

section \<open>Motor control: what the directions write\<close>

lemma pwm_writes_append: "pwm_writes (xs @ ys) = pwm_writes xs @ pwm_writes ys"
  by (induction xs rule: pwm_writes.induct) simp_all

lemmas arduino_defs = pinMode_def ledcAttach_def ledcWrite_def Serial_println_def

lemmas pin_defs = LEFT_M0_def LEFT_M1_def RIGHT_M0_def RIGHT_M1_def

lemma issued_robot_stop:
  "issued robot_stop w =
     [LedcWrite LEFT_M0 0, LedcWrite LEFT_M1 0, LedcWrite RIGHT_M0 0, LedcWrite RIGHT_M1 0,
      SerialPrintln ''Motors: STOP'']"
  by (simp add: issued_def robot_stop_def arduino_defs)

lemma issued_robot_left:
  "issued (robot_left speed) w =
     [LedcWrite LEFT_M0 0, LedcWrite LEFT_M1 (duty_arg speed), LedcWrite RIGHT_M0 0,
      LedcWrite RIGHT_M1 (duty_arg speed), SerialPrintln ''Motors: FORWARD'']"
  by (simp add: issued_def robot_left_def arduino_defs)

lemma issued_robot_right:
  "issued (robot_right speed) w =
     [LedcWrite LEFT_M0 (duty_arg speed), LedcWrite LEFT_M1 0,
      LedcWrite RIGHT_M0 (duty_arg speed), LedcWrite RIGHT_M1 0,
      SerialPrintln ''Motors: BACKWARD'']"
  by (simp add: issued_def robot_right_def arduino_defs)

lemma issued_robot_fwd:
  "issued (robot_fwd speed) w =
     [LedcWrite LEFT_M0 (duty_arg speed), LedcWrite LEFT_M1 0, LedcWrite RIGHT_M0 0,
      LedcWrite RIGHT_M1 (duty_arg speed), SerialPrintln ''Motors: LEFT'']"
  by (simp add: issued_def robot_fwd_def arduino_defs)

lemma issued_robot_back:
  "issued (robot_back speed) w =
     [LedcWrite LEFT_M0 0, LedcWrite LEFT_M1 (duty_arg speed),
      LedcWrite RIGHT_M0 (duty_arg speed), LedcWrite RIGHT_M1 0,
      SerialPrintln ''Motors: RIGHT'']"
  by (simp add: issued_def robot_back_def arduino_defs)

lemmas issued_motor =
  issued_robot_stop issued_robot_left issued_robot_right issued_robot_fwd issued_robot_back

lemma uint_duty_arg: "0 \<le> speed \<Longrightarrow> speed \<le> 255 \<Longrightarrow> uint (duty_arg speed) = speed"
  by (simp add: duty_arg_def uint_word_of_int take_bit_eq_mod)

lemma duty_arg_nonzero: "1 \<le> speed \<Longrightarrow> speed \<le> 255 \<Longrightarrow> duty_arg speed \<noteq> 0"
  using uint_duty_arg [of speed] by auto

lemma robot_fwd_trace: "robot_fwd speed w = w @ issued (robot_fwd speed) w"
  by (simp add: issued_def robot_fwd_def arduino_defs)

lemma go_handler_trace:
  "snd (go_handler speed ta sa w) =
     robot_fwd speed w @ [RespSetType ''text/html'' ta, RespSend ''OK'' sa]"
  by (simp add: go_handler_def httpd_resp_set_type_def httpd_resp_send_def)

lemma robot_setup_trace:
  "robot_setup w =
     w @ [SerialPrintln ''Initializing motors...'',
          PinMode LEFT_M0 OUTPUT, PinMode LEFT_M1 OUTPUT,
          PinMode RIGHT_M0 OUTPUT, PinMode RIGHT_M1 OUTPUT,
          LedcAttach LEFT_M0 2000 8, LedcAttach LEFT_M1 2000 8,
          LedcAttach RIGHT_M0 2000 8, LedcAttach RIGHT_M1 2000 8,
          LedcWrite LEFT_M0 0, LedcWrite LEFT_M1 0, LedcWrite RIGHT_M0 0, LedcWrite RIGHT_M1 0,
          SerialPrintln ''Motors: STOP'', SerialPrintln ''Motors initialized'']"
  by (simp add: robot_setup_def robot_stop_def arduino_defs)

lemma driven_two:
  assumes "d \<noteq> 0"
  shows "driven [(a, d), (b, 0), (c, 0), (e, d)] = {a, e}"
    and "driven [(a, 0), (b, d), (c, d), (e, 0)] = {b, c}"
    and "driven [(a, 0), (b, d), (c, 0), (e, d)] = {b, e}"
    and "driven [(a, d), (b, 0), (c, d), (e, 0)] = {a, c}"
  using assms by (auto simp: driven_def)

text \<open>
  C1, as the specification has it: \<^verbatim>\<open>/go\<close> with motor speed 150 leaves pin 12 (\<open>LEFT_M1\<close>,
  left forward) at 150, pin 13 (\<open>LEFT_M0\<close>, left backward) at 0, pin 15 (\<open>RIGHT_M1\<close>, right
  forward) at 0 and pin 14 (\<open>RIGHT_M0\<close>, right backward) at 150. \<^verbatim>\<open>robot_fwd\<close> writes the
  mirror image of that, so the statement fails.
\<close>

theorem go_150_counterexample:
  "\<not> (duty LEFT_M1 (snd (go_handler 150 ESP_OK ESP_OK [])) = Some 150 \<and>
      duty LEFT_M0 (snd (go_handler 150 ESP_OK ESP_OK [])) = Some 0 \<and>
      duty RIGHT_M1 (snd (go_handler 150 ESP_OK ESP_OK [])) = Some 0 \<and>
      duty RIGHT_M0 (snd (go_handler 150 ESP_OK ESP_OK [])) = Some 150)"
  by (simp add: go_handler_trace robot_fwd_trace issued_robot_fwd duty_def pwm_writes_append
      pin_defs duty_arg_def)

text \<open>
  C1, amended: with motor speed 150, \<^verbatim>\<open>robot_fwd\<close> (and so the \<^verbatim>\<open>/go\<close> handler, which
  issues no other duty-cycle write) writes, in this order, 150 to pin 13 (\<open>LEFT_M0\<close>, left
  backward), 0 to pin 12 (\<open>LEFT_M1\<close>, left forward), 0 to pin 14 (\<open>RIGHT_M0\<close>, right
  backward) and 150 to pin 15 (\<open>RIGHT_M1\<close>, right forward), whatever came before and
  whatever the HTTP server answers.
\<close>

theorem go_150_duties:
  "pwm_writes (issued (robot_fwd 150) w) =
     [(LEFT_M0, 150), (LEFT_M1, 0), (RIGHT_M0, 0), (RIGHT_M1, 150)] \<and>
   pwm_writes (issued (\<lambda>w. snd (go_handler 150 ta sa w)) w) =
     pwm_writes (issued (robot_fwd 150) w) \<and>
   duty LEFT_M0 (snd (go_handler 150 ta sa w)) = Some 150 \<and>
   duty LEFT_M1 (snd (go_handler 150 ta sa w)) = Some 0 \<and>
   duty RIGHT_M0 (snd (go_handler 150 ta sa w)) = Some 0 \<and>
   duty RIGHT_M1 (snd (go_handler 150 ta sa w)) = Some 150 \<and>
   LEFT_M0 = 13 \<and> LEFT_M1 = 12 \<and> RIGHT_M0 = 14 \<and> RIGHT_M1 = 15"
proof -
  have a: "pwm_writes (issued (robot_fwd 150) w) =
      [(LEFT_M0, 150), (LEFT_M1, 0), (RIGHT_M0, 0), (RIGHT_M1, 150)]"
    by (simp add: issued_robot_fwd duty_arg_def)
  have g: "issued (\<lambda>w. snd (go_handler 150 ta sa w)) w =
      issued (robot_fwd 150) w @ [RespSetType ''text/html'' ta, RespSend ''OK'' sa]"
    unfolding go_handler_trace by (subst robot_fwd_trace) (simp add: issued_def)
  have b: "pwm_writes (issued (\<lambda>w. snd (go_handler 150 ta sa w)) w) =
      pwm_writes (issued (robot_fwd 150) w)"
    by (simp add: g pwm_writes_append)
  have t: "pwm_writes (snd (go_handler 150 ta sa w)) =
      pwm_writes w @ [(LEFT_M0, 150), (LEFT_M1, 0), (RIGHT_M0, 0), (RIGHT_M1, 150)]"
    unfolding go_handler_trace by (subst robot_fwd_trace) (simp add: pwm_writes_append a)
  show ?thesis
    by (simp add: a b) (simp add: duty_def t pin_defs)
qed

text \<open>
  C5: for a motor speed from 1 to 255, each of \<^verbatim>\<open>robot_fwd\<close>, \<^verbatim>\<open>robot_back\<close>,
  \<^verbatim>\<open>robot_left\<close> and \<^verbatim>\<open>robot_right\<close> issues four duty-cycle writes, one to each of the
  four channels, two of them with the motor speed and two with 0; \<^verbatim>\<open>robot_stop\<close> writes
  0 to all four.
\<close>

theorem direction_writes:
  assumes "1 \<le> speed" and "speed \<le> 255"
  shows "drives_two speed (pwm_writes (issued (robot_fwd speed) w)) \<and>
         drives_two speed (pwm_writes (issued (robot_back speed) w)) \<and>
         drives_two speed (pwm_writes (issued (robot_left speed) w)) \<and>
         drives_two speed (pwm_writes (issued (robot_right speed) w)) \<and>
         pwm_writes (issued robot_stop w) =
           [(LEFT_M0, 0), (LEFT_M1, 0), (RIGHT_M0, 0), (RIGHT_M1, 0)]"
proof -
  from assms have u: "uint (duty_arg speed) = speed"
    by (simp add: uint_duty_arg)
  from assms have n: "duty_arg speed \<noteq> 0"
    by (rule duty_arg_nonzero)
  from assms have z: "speed \<noteq> 0"
    by simp
  show ?thesis
    using u n z by (simp add: issued_motor drives_two_def pin_defs)
qed

theorem direction_writes_witness:
  "drives_two 200 (pwm_writes (issued (robot_fwd 200) [])) \<and>
   drives_two 200 (pwm_writes (issued (robot_back 200) [])) \<and>
   drives_two 200 (pwm_writes (issued (robot_left 200) [])) \<and>
   drives_two 200 (pwm_writes (issued (robot_right 200) [])) \<and>
   pwm_writes (issued (robot_fwd 200) []) = [(13, 200), (12, 0), (14, 0), (15, 200)]"
  using direction_writes [of 200 "[]"]
  by (simp add: issued_motor pin_defs duty_arg_def)

text \<open>
  C8: for a motor speed from 1 to 255, any two different directions among forward,
  backward, left and right drive different sets of channels (the channels written with
  a nonzero duty).
\<close>

theorem directions_differ:
  assumes "1 \<le> speed" and "speed \<le> 255"
  shows "driven (pwm_writes (issued (robot_fwd speed) w)) \<noteq>
           driven (pwm_writes (issued (robot_back speed) w')) \<and>
         driven (pwm_writes (issued (robot_fwd speed) w)) \<noteq>
           driven (pwm_writes (issued (robot_left speed) w')) \<and>
         driven (pwm_writes (issued (robot_fwd speed) w)) \<noteq>
           driven (pwm_writes (issued (robot_right speed) w')) \<and>
         driven (pwm_writes (issued (robot_back speed) w)) \<noteq>
           driven (pwm_writes (issued (robot_left speed) w')) \<and>
         driven (pwm_writes (issued (robot_back speed) w)) \<noteq>
           driven (pwm_writes (issued (robot_right speed) w')) \<and>
         driven (pwm_writes (issued (robot_left speed) w)) \<noteq>
           driven (pwm_writes (issued (robot_right speed) w'))"
proof -
  from assms have n: "duty_arg speed \<noteq> 0"
    by (rule duty_arg_nonzero)
  show ?thesis
    by (simp add: issued_motor driven_two [OF n] pin_defs doubleton_eq_iff)
qed

theorem directions_differ_witness:
  "driven (pwm_writes (issued (robot_fwd 1) [])) = {13, 15} \<and>
   driven (pwm_writes (issued (robot_back 1) [])) = {12, 14} \<and>
   driven (pwm_writes (issued (robot_left 1) [])) = {12, 15} \<and>
   driven (pwm_writes (issued (robot_right 1) [])) = {13, 14} \<and>
   driven (pwm_writes (issued (robot_fwd 1) [])) \<noteq>
     driven (pwm_writes (issued (robot_back 1) []))"
  using directions_differ [of 1 "[]" "[]"]
  by (simp add: issued_motor pin_defs duty_arg_def driven_def insert_commute)

text \<open>
  C9: when \<^verbatim>\<open>robot_setup\<close> is done, each of the four motor channels was last written
  with duty 0, and the duty-cycle writes of \<^verbatim>\<open>robot_setup\<close> are those of its call of
  \<^verbatim>\<open>robot_stop\<close>.
\<close>

theorem robot_setup_stopped:
  "duty LEFT_M0 (robot_setup w) = Some 0 \<and> duty LEFT_M1 (robot_setup w) = Some 0 \<and>
   duty RIGHT_M0 (robot_setup w) = Some 0 \<and> duty RIGHT_M1 (robot_setup w) = Some 0 \<and>
   pwm_writes (issued robot_setup w) = pwm_writes (issued robot_stop w')"
proof -
  have p: "pwm_writes (robot_setup w) =
      pwm_writes w @ [(LEFT_M0, 0), (LEFT_M1, 0), (RIGHT_M0, 0), (RIGHT_M1, 0)]"
    by (simp add: robot_setup_trace pwm_writes_append)
  have i: "pwm_writes (issued robot_setup w) =
      [(LEFT_M0, 0), (LEFT_M1, 0), (RIGHT_M0, 0), (RIGHT_M1, 0)]"
    by (simp add: issued_def robot_setup_trace)
  show ?thesis
    by (simp add: i issued_robot_stop) (simp add: duty_def p pin_defs)
qed

section \<open>Traces of the handlers\<close>

lemma fb_held_append:
  "fb_held H (xs @ ys) = Option.bind (fb_held H xs) (\<lambda>H'. fb_held H' ys)"
  by (induction H xs rule: fb_held.induct) simp_all

lemma jpg_held_append:
  "jpg_held H (xs @ ys) = Option.bind (jpg_held H xs) (\<lambda>H'. jpg_held H' ys)"
  by (induction H xs rule: jpg_held.induct) simp_all

lemma acquired_append: "acquired (xs @ ys) = acquired xs @ acquired ys"
  by (induction xs rule: acquired.induct) simp_all

lemma released_append: "released (xs @ ys) = released xs @ released ys"
  by (induction xs rule: released.induct) simp_all

lemma allocated_append: "allocated (xs @ ys) = allocated xs @ allocated ys"
  by (induction xs rule: allocated.induct) simp_all

lemma freed_append: "freed (xs @ ys) = freed xs @ freed ys"
  by (induction xs rule: freed.induct) simp_all

lemma chunks_append: "chunks (xs @ ys) = chunks xs @ chunks ys"
  by (induction xs rule: chunks.induct) simp_all

lemma acquire_calls_append: "acquire_calls (xs @ ys) = acquire_calls xs + acquire_calls ys"
  by (induction xs rule: acquire_calls.induct) simp_all

lemma from_failed_write_append:
  "from_failed_write xs = [] \<Longrightarrow> from_failed_write (xs @ ys) = from_failed_write ys"
  by (induction xs rule: from_failed_write.induct) (simp_all split: if_splits)

lemmas call_defs = esp_camera_fb_get_def esp_camera_fb_return_def frame2jpg_def free_def
  httpd_resp_set_type_def httpd_resp_set_hdr_def httpd_resp_send_chunk_def httpd_resp_send_def
  httpd_resp_send_500_def Serial_println_def


lemma ESP_FAIL_not_OK: "ESP_FAIL \<noteq> ESP_OK"
  by (simp add: ESP_FAIL_def ESP_OK_def)

text \<open>The three stages of the loop body, case by case.\<close>

lemma acquire_none:
  assumes "acq e = None"
  shows "out (stream_acquire e s) = out s @ [CameraFbGet None, SerialPrintln ''Camera capture failed'']"
    and "fb (stream_acquire e s) = None"
    and "res (stream_acquire e s) = ESP_FAIL"
    and "jpg_buf (stream_acquire e s) = jpg_buf s"
    and "jpg_buf_len (stream_acquire e s) = jpg_buf_len s"
    and "part_buf (stream_acquire e s) = part_buf s"
  using assms by (simp_all add: stream_acquire_def call_defs)

lemma acquire_jpeg:
  assumes "acq e = Some f" and "format f = PIXFORMAT_JPEG"
  shows "out (stream_acquire e s) = out s @ [CameraFbGet (Some f)]"
    and "fb (stream_acquire e s) = Some f"
    and "res (stream_acquire e s) = res s"
    and "jpg_buf (stream_acquire e s) = Some (FrameData (buf f))"
    and "jpg_buf_len (stream_acquire e s) = len f"
    and "part_buf (stream_acquire e s) = part_buf s"
  using assms by (simp_all add: stream_acquire_def call_defs)

lemma acquire_converted:
  assumes "acq e = Some f" and "format f \<noteq> PIXFORMAT_JPEG" and "conv e = Some (b, n)"
  shows "out (stream_acquire e s) =
           out s @ [CameraFbGet (Some f), Frame2Jpg f 80 (Some (b, n)), CameraFbReturn f]"
    and "fb (stream_acquire e s) = None"
    and "res (stream_acquire e s) = res s"
    and "jpg_buf (stream_acquire e s) = Some (HeapData b)"
    and "jpg_buf_len (stream_acquire e s) = n"
    and "part_buf (stream_acquire e s) = part_buf s"
  using assms by (simp_all add: stream_acquire_def call_defs)

lemma acquire_unconverted:
  assumes "acq e = Some f" and "format f \<noteq> PIXFORMAT_JPEG" and "conv e = None"
  shows "out (stream_acquire e s) =
           out s @ [CameraFbGet (Some f), Frame2Jpg f 80 None, CameraFbReturn f,
                    SerialPrintln ''JPEG compression failed'']"
    and "fb (stream_acquire e s) = None"
    and "res (stream_acquire e s) = ESP_FAIL"
    and "jpg_buf (stream_acquire e s) = jpg_buf s"
    and "jpg_buf_len (stream_acquire e s) = jpg_buf_len s"
    and "part_buf (stream_acquire e s) = part_buf s"
  using assms by (simp_all add: stream_acquire_def call_defs)

lemma release_frame:
  assumes "fb s = Some f"
  shows "out (stream_release s) = out s @ [CameraFbReturn f]"
    and "fb (stream_release s) = None"
    and "jpg_buf (stream_release s) = None"
    and "res (stream_release s) = res s"
  using assms by (simp_all add: stream_release_def call_defs)

lemma release_heap:
  assumes "fb s = None" and "jpg_buf s = Some p"
  shows "out (stream_release s) = out s @ [Free p]"
    and "fb (stream_release s) = None"
    and "jpg_buf (stream_release s) = None"
    and "res (stream_release s) = res s"
  using assms by (simp_all add: stream_release_def call_defs)

lemma release_nothing:
  assumes "fb s = None" and "jpg_buf s = None"
  shows "out (stream_release s) = out s"
    and "fb (stream_release s) = None"
    and "jpg_buf (stream_release s) = None"
    and "res (stream_release s) = res s"
  using assms by (simp_all add: stream_release_def call_defs)

lemma send_skipped:
  assumes "res s \<noteq> ESP_OK"
  shows "stream_send e s = s"
  using assms by (simp add: stream_send_def)

lemma length_dec: "0 < k \<Longrightarrow> n < 10 ^ k \<Longrightarrow> length (dec n) \<le> k"
proof (induction k arbitrary: n)
  case 0
  then show ?case by simp
next
  case (Suc k)
  show ?case
  proof (cases "n < 10")
    case True
    then show ?thesis by (subst dec.simps) simp
  next
    case False
    with Suc.prems have k: "0 < k" by (cases k) simp_all
    from Suc.prems have "n div 10 < 10 ^ k" by (simp add: less_mult_imp_div_less mult.commute)
    with k have "length (dec (n div 10)) \<le> k" by (rule Suc.IH)
    with False show ?thesis by (subst dec.simps) simp
  qed
qed

lemma length_dec_u32: "length (dec (unat (n :: u32))) \<le> 10"
proof -
  have "unat n < 2 ^ 32" using unsigned_less [of n] by simp
  then have "unat n < 10 ^ 10" by simp
  then show ?thesis by (intro length_dec) simp_all
qed

lemma length_STREAM_PART: "length (STREAM_PART n) = 46 + length (dec (unat n))"
  by (simp add: STREAM_PART_def CRLF_def)

lemma length_STREAM_PART_le: "length (STREAM_PART n) \<le> 56"
  using length_dec_u32 [of n] by (simp add: length_STREAM_PART)

lemma snprintf_fits:
  assumes "length t < bound"
  shows "snprintf dst bound t = (t @ NUL # drop (Suc (length t)) dst, length t)"
  using assms by (simp add: snprintf_def)

lemma snprintf_STREAM_PART:
  "snprintf dst 64 (STREAM_PART n) =
     (STREAM_PART n @ NUL # drop (Suc (length (STREAM_PART n))) dst, length (STREAM_PART n))"
  using length_STREAM_PART_le [of n] by (intro snprintf_fits) simp

lemma strlen_STREAM_BOUNDARY: "take (strlen STREAM_BOUNDARY) STREAM_BOUNDARY = STREAM_BOUNDARY"
  by (simp add: strlen_def STREAM_BOUNDARY_def PART_BOUNDARY_def CRLF_def NUL_def)

lemma send_stage:
  assumes "res s = ESP_OK"
  shows "out (stream_send e s) = out s @
           RespSendChunk (STREAM_PART (jpg_buf_len s)) (w_part e) #
           (if w_part e = ESP_OK then
              RespSendChunk (take (unat (jpg_buf_len s))
                 (case jpg_buf s of None \<Rightarrow> [] | Some p \<Rightarrow> deref p)) (w_body e) #
              (if w_body e = ESP_OK then [RespSendChunk STREAM_BOUNDARY (w_bound e)] else [])
            else [])"
    and "res (stream_send e s) = first_failure e"
    and "fb (stream_send e s) = fb s"
    and "jpg_buf (stream_send e s) = jpg_buf s"
  using assms
  by (simp_all add: stream_send_def Let_def snprintf_STREAM_PART httpd_resp_send_chunk_def
      strlen_STREAM_BOUNDARY first_failure_def)

lemma acquire_cases [case_names none jpeg converted unconverted]:
  obtains "acq e = None"
  | f where "acq e = Some f" and "format f = PIXFORMAT_JPEG"
  | f b n where "acq e = Some f" and "format f \<noteq> PIXFORMAT_JPEG" and "conv e = Some (b, n)"
  | f where "acq e = Some f" and "format f \<noteq> PIXFORMAT_JPEG" and "conv e = None"
  by (cases "acq e"; cases "conv e") auto

text \<open>One pass of the loop body from the loop head, path by path.\<close>

lemma iter_none:
  assumes "acq e = None" and "jpg_buf s = None"
  shows "out (stream_iter e s) =
           out s @ [CameraFbGet None, SerialPrintln ''Camera capture failed'']"
    and "res (stream_iter e s) = ESP_FAIL"
    and "jpg_buf (stream_iter e s) = None"
  using assms
  by (simp_all add: stream_iter_def send_skipped acquire_none ESP_FAIL_not_OK release_nothing)

lemma iter_unconverted:
  assumes "acq e = Some f" and "format f \<noteq> PIXFORMAT_JPEG" and "conv e = None"
    and "jpg_buf s = None"
  shows "out (stream_iter e s) =
           out s @ [CameraFbGet (Some f), Frame2Jpg f 80 None, CameraFbReturn f,
                    SerialPrintln ''JPEG compression failed'']"
    and "res (stream_iter e s) = ESP_FAIL"
    and "jpg_buf (stream_iter e s) = None"
  using assms
  by (simp_all add: stream_iter_def send_skipped acquire_unconverted ESP_FAIL_not_OK
      release_nothing)

lemma iter_jpeg:
  assumes "acq e = Some f" and "format f = PIXFORMAT_JPEG" and "res s = ESP_OK"
  shows "out (stream_iter e s) =
           out s @ CameraFbGet (Some f) #
           RespSendChunk (STREAM_PART (len f)) (w_part e) #
           (if w_part e = ESP_OK then
              RespSendChunk (take (unat (len f)) (buf f)) (w_body e) #
              (if w_body e = ESP_OK then [RespSendChunk STREAM_BOUNDARY (w_bound e)] else [])
            else []) @ [CameraFbReturn f]"
    and "res (stream_iter e s) = first_failure e"
    and "jpg_buf (stream_iter e s) = None"
proof -
  let ?a = "stream_acquire e s"
  have a: "res ?a = ESP_OK" "fb ?a = Some f"
    using assms by (simp_all add: acquire_jpeg)
  have f: "fb (stream_send e ?a) = Some f"
    using a by (simp add: send_stage)
  show "out (stream_iter e s) =
           out s @ CameraFbGet (Some f) #
           RespSendChunk (STREAM_PART (len f)) (w_part e) #
           (if w_part e = ESP_OK then
              RespSendChunk (take (unat (len f)) (buf f)) (w_body e) #
              (if w_body e = ESP_OK then [RespSendChunk STREAM_BOUNDARY (w_bound e)] else [])
            else []) @ [CameraFbReturn f]"
    unfolding stream_iter_def release_frame [OF f] send_stage [OF a(1)]
    using assms by (simp add: acquire_jpeg)
  show "res (stream_iter e s) = first_failure e"
    unfolding stream_iter_def release_frame [OF f] send_stage [OF a(1)] ..
  show "jpg_buf (stream_iter e s) = None"
    unfolding stream_iter_def release_frame [OF f] ..
qed

lemma iter_converted:
  assumes "acq e = Some f" and "format f \<noteq> PIXFORMAT_JPEG" and "conv e = Some (b, n)"
    and "res s = ESP_OK"
  shows "out (stream_iter e s) =
           out s @ CameraFbGet (Some f) # Frame2Jpg f 80 (Some (b, n)) # CameraFbReturn f #
           RespSendChunk (STREAM_PART n) (w_part e) #
           (if w_part e = ESP_OK then
              RespSendChunk (take (unat n) b) (w_body e) #
              (if w_body e = ESP_OK then [RespSendChunk STREAM_BOUNDARY (w_bound e)] else [])
            else []) @ [Free (HeapData b)]"
    and "res (stream_iter e s) = first_failure e"
    and "jpg_buf (stream_iter e s) = None"
proof -
  let ?a = "stream_acquire e s"
  have a: "res ?a = ESP_OK" "fb ?a = None" "jpg_buf ?a = Some (HeapData b)"
    using assms by (simp_all add: acquire_converted)
  have f: "fb (stream_send e ?a) = None" "jpg_buf (stream_send e ?a) = Some (HeapData b)"
    using a by (simp_all add: send_stage)
  show "out (stream_iter e s) =
           out s @ CameraFbGet (Some f) # Frame2Jpg f 80 (Some (b, n)) # CameraFbReturn f #
           RespSendChunk (STREAM_PART n) (w_part e) #
           (if w_part e = ESP_OK then
              RespSendChunk (take (unat n) b) (w_body e) #
              (if w_body e = ESP_OK then [RespSendChunk STREAM_BOUNDARY (w_bound e)] else [])
            else []) @ [Free (HeapData b)]"
    unfolding stream_iter_def release_heap [OF f] send_stage [OF a(1)]
    using assms by (simp add: acquire_converted)
  show "res (stream_iter e s) = first_failure e"
    unfolding stream_iter_def release_heap [OF f] send_stage [OF a(1)] ..
  show "jpg_buf (stream_iter e s) = None"
    unfolding stream_iter_def release_heap [OF f] ..
qed

lemmas iter_paths = iter_none iter_unconverted iter_jpeg iter_converted

lemma iter_jpg_buf:
  assumes "res s = ESP_OK" and "jpg_buf s = None"
  shows "jpg_buf (stream_iter e s) = None"
  using assms by (cases e rule: acquire_cases) (simp_all add: iter_paths)

lemma iter_fb_held:
  assumes "res s = ESP_OK" and "jpg_buf s = None"
  shows "fb_held H (out (stream_iter e s)) = fb_held H (out s)"
  using assms by (cases e rule: acquire_cases) (simp_all add: iter_paths fb_held_append)

lemma iter_jpg_held:
  assumes "res s = ESP_OK" and "jpg_buf s = None"
  shows "jpg_held H (out (stream_iter e s)) = jpg_held H (out s)"
  using assms by (cases e rule: acquire_cases) (simp_all add: iter_paths jpg_held_append)

lemma iter_released:
  assumes "res s = ESP_OK" and "jpg_buf s = None" and "released (out s) = acquired (out s)"
  shows "released (out (stream_iter e s)) = acquired (out (stream_iter e s))"
  using assms
  by (cases e rule: acquire_cases) (simp_all add: iter_paths released_append acquired_append)

lemma iter_freed:
  assumes "res s = ESP_OK" and "jpg_buf s = None" and "freed (out s) = allocated (out s)"
  shows "freed (out (stream_iter e s)) = allocated (out (stream_iter e s))"
  using assms
  by (cases e rule: acquire_cases) (simp_all add: iter_paths freed_append allocated_append)

lemma iter_acquire_calls:
  assumes "res s = ESP_OK" and "jpg_buf s = None"
  shows "acquire_calls (out (stream_iter e s)) = Suc (acquire_calls (out s))"
  using assms
  by (cases e rule: acquire_cases) (simp_all add: iter_paths acquire_calls_append)

lemma iter_ok_step:
  assumes "iter_ok e" and "res s = ESP_OK"
  shows "res (stream_iter e s) = ESP_OK"
    and "chunks (out (stream_iter e s)) = chunks (out s) @ frame_part e"
    and "from_failed_write (out s) = [] \<Longrightarrow> from_failed_write (out (stream_iter e s)) = []"
  using assms
  by (cases e rule: acquire_cases;
      simp add: iter_ok_def frame_jpeg_def frame_part_def iter_paths first_failure_def
        chunks_append from_failed_write_append)+

lemma first_failure_not_OK:
  "\<not> (w_part e = ESP_OK \<and> w_body e = ESP_OK \<and> w_bound e = ESP_OK) \<Longrightarrow> first_failure e \<noteq> ESP_OK"
  by (auto simp: first_failure_def)

lemma write_fails_step:
  assumes "write_fails e" and "res s = ESP_OK"
  shows "res (stream_iter e s) = first_failure e"
    and "first_failure e \<noteq> ESP_OK"
    and "from_failed_write (out s) = [] \<Longrightarrow>
           acquire_calls (from_failed_write (out (stream_iter e s))) = 0"
proof -
  from assms(1) show "first_failure e \<noteq> ESP_OK"
    by (simp add: write_fails_def first_failure_not_OK)
  from assms show "res (stream_iter e s) = first_failure e"
    by (cases e rule: acquire_cases) (simp_all add: write_fails_def frame_jpeg_def iter_paths)
  assume "from_failed_write (out s) = []"
  with assms show "acquire_calls (from_failed_write (out (stream_iter e s))) = 0"
    by (cases e rule: acquire_cases)
      (auto simp: write_fails_def frame_jpeg_def iter_paths from_failed_write_append)
qed


section \<open>The loop and the handlers as a whole\<close>

lemma loop_invariants:
  assumes "res s = ESP_OK" and "jpg_buf s = None"
  shows "fb_held H (final_trace (stream_loop es s)) = fb_held H (out s)"
    and "jpg_held G (final_trace (stream_loop es s)) = jpg_held G (out s)"
  using assms
  by (induction es arbitrary: s)
    (simp_all add: Let_def iter_fb_held iter_jpg_held iter_jpg_buf)

lemma loop_balanced:
  assumes "res s = ESP_OK" and "jpg_buf s = None"
  shows "released (out s) = acquired (out s) \<Longrightarrow>
           released (final_trace (stream_loop es s)) = acquired (final_trace (stream_loop es s))"
    and "freed (out s) = allocated (out s) \<Longrightarrow>
           freed (final_trace (stream_loop es s)) = allocated (final_trace (stream_loop es s))"
  using assms
  by (induction es arbitrary: s)
    (simp_all add: Let_def iter_released iter_freed iter_jpg_buf)

lemma stream_handler_unfold:
  "stream_handler env w =
     (if type_answer env \<noteq> ESP_OK
      then Returned (type_answer env) (w @ [RespSetType STREAM_CONTENT_TYPE (type_answer env)])
      else stream_loop (frames env)
             \<lparr>fb = None, res = ESP_OK, jpg_buf_len = 0, jpg_buf = None, part_buf = stack env,
              out = w @ [RespSetType STREAM_CONTENT_TYPE ESP_OK]\<rparr>)"
  by (simp add: stream_handler_def httpd_resp_set_type_def)

lemma stream_handler_held:
  "fb_held H (final_trace (stream_handler env w)) = fb_held H w"
  "jpg_held G (final_trace (stream_handler env w)) = jpg_held G w"
  by (simp_all add: stream_handler_unfold loop_invariants fb_held_append jpg_held_append)

lemma stream_handler_balanced:
  "released (final_trace (stream_handler env [])) = acquired (final_trace (stream_handler env []))"
  "freed (final_trace (stream_handler env [])) = allocated (final_trace (stream_handler env []))"
  by (simp_all add: stream_handler_unfold loop_balanced)

lemma capture_cases [case_names none jpeg converted unconverted]:
  obtains "cap_acq e = None"
  | f where "cap_acq e = Some f" and "format f = PIXFORMAT_JPEG"
  | f b n where "cap_acq e = Some f" and "format f \<noteq> PIXFORMAT_JPEG" and "cap_conv e = Some (b, n)"
  | f where "cap_acq e = Some f" and "format f \<noteq> PIXFORMAT_JPEG" and "cap_conv e = None"
  by (cases "cap_acq e"; cases "cap_conv e") auto

lemma capture_none:
  assumes "cap_acq env = None"
  shows "capture_handler env w =
    (ESP_FAIL, w @ [CameraFbGet None, SerialPrintln ''Camera capture failed'', RespSend500])"
  using assms by (simp add: capture_handler_def call_defs)

lemma capture_jpeg:
  assumes "cap_acq env = Some f" and "format f = PIXFORMAT_JPEG"
  shows "capture_handler env w =
    (cap_send env, w @ [CameraFbGet (Some f), RespSetType ''image/jpeg'' (cap_type env),
       RespSetHdr ''Content-Disposition'' ''inline; filename=capture.jpg'',
       RespSend (take (unat (len f)) (buf f)) (cap_send env), CameraFbReturn f])"
  using assms by (simp add: capture_handler_def call_defs)

lemma capture_converted:
  assumes "cap_acq env = Some f" and "format f \<noteq> PIXFORMAT_JPEG" and "cap_conv env = Some (b, n)"
  shows "capture_handler env w =
    (cap_send env, w @ [CameraFbGet (Some f), RespSetType ''image/jpeg'' (cap_type env),
       RespSetHdr ''Content-Disposition'' ''inline; filename=capture.jpg'',
       Frame2Jpg f 80 (Some (b, n)),
       RespSend (take (unat n) b) (cap_send env), Free (HeapData b), CameraFbReturn f])"
  using assms by (simp add: capture_handler_def call_defs)

lemma capture_unconverted:
  assumes "cap_acq env = Some f" and "format f \<noteq> PIXFORMAT_JPEG" and "cap_conv env = None"
  shows "capture_handler env w =
    (ESP_FAIL, w @ [CameraFbGet (Some f), RespSetType ''image/jpeg'' (cap_type env),
       RespSetHdr ''Content-Disposition'' ''inline; filename=capture.jpg'',
       Frame2Jpg f 80 None, CameraFbReturn f])"
  using assms by (simp add: capture_handler_def call_defs)

lemmas capture_paths = capture_none capture_jpeg capture_converted capture_unconverted

lemma capture_held:
  "fb_held H (snd (capture_handler env w)) = fb_held H w"
  "jpg_held G (snd (capture_handler env w)) = jpg_held G w"
  by (cases env rule: capture_cases; simp add: capture_paths fb_held_append jpg_held_append)+

lemma capture_balanced:
  "released (snd (capture_handler env [])) = acquired (snd (capture_handler env []))"
  "freed (snd (capture_handler env [])) = allocated (snd (capture_handler env []))"
  by (cases env rule: capture_cases; simp add: capture_paths)+

lemma stream_loop_append:
  "stream_loop (xs @ ys) s =
     (case stream_loop xs s of Running s' \<Rightarrow> stream_loop ys s' | Returned r w \<Rightarrow> Returned r w)"
  by (induction xs arbitrary: s) (simp_all add: Let_def)

lemma loop_all_ok:
  assumes "list_all iter_ok es" and "res s = ESP_OK" and "jpg_buf s = None"
  shows "\<exists>s'. stream_loop es s = Running s' \<and> res s' = ESP_OK \<and> jpg_buf s' = None \<and>
           chunks (out s') = chunks (out s) @ concat (map frame_part es) \<and>
           acquire_calls (out s') = acquire_calls (out s) + length es \<and>
           (from_failed_write (out s) = [] \<longrightarrow> from_failed_write (out s') = [])"
  using assms
proof (induction es arbitrary: s)
  case Nil
  then show ?case by simp
next
  case (Cons e es)
  let ?t = "stream_iter e s"
  from Cons.prems have e: "iter_ok e" and es: "list_all iter_ok es"
    by simp_all
  have t: "res ?t = ESP_OK" "jpg_buf ?t = None"
    using e Cons.prems by (simp_all add: iter_ok_step iter_jpg_buf)
  from Cons.IH [OF es t] obtain s' where s': "stream_loop es ?t = Running s'"
    "res s' = ESP_OK" "jpg_buf s' = None"
    "chunks (out s') = chunks (out ?t) @ concat (map frame_part es)"
    "acquire_calls (out s') = acquire_calls (out ?t) + length es"
    "from_failed_write (out ?t) = [] \<longrightarrow> from_failed_write (out s') = []"
    by blast
  have "stream_loop (e # es) s = Running s'"
    using t s'(1) by (simp add: Let_def)
  moreover have "chunks (out s') = chunks (out s) @ concat (map frame_part (e # es))"
    using s'(4) e Cons.prems by (simp add: iter_ok_step)
  moreover have "acquire_calls (out s') = acquire_calls (out s) + length (e # es)"
    using s'(5) Cons.prems by (simp add: iter_acquire_calls)
  moreover have "from_failed_write (out s) = [] \<longrightarrow> from_failed_write (out s') = []"
    using s'(6) e Cons.prems by (simp add: iter_ok_step)
  ultimately show ?case
    using s'(2,3) by blast
qed

lemma loop_write_fails:
  assumes "write_fails e" and "res s = ESP_OK"
  shows "stream_loop (e # rest) s = Returned (first_failure e) (out (stream_iter e s))"
  using assms by (simp add: Let_def write_fails_step)


text \<open>
  The scans tell a balanced trace from a leak and from a double release.
\<close>

lemma fb_held_examples:
  "fb_held [] [CameraFbGet (Some f), CameraFbReturn f] = Some []"
  "fb_held [] [CameraFbGet (Some f)] = Some [f]"
  "fb_held [] [CameraFbGet (Some f), CameraFbReturn f, CameraFbReturn f] = None"
  by simp_all

lemma jpg_held_examples:
  "jpg_held [] [Frame2Jpg f q (Some (b, n)), Free (HeapData b)] = Some []"
  "jpg_held [] [Frame2Jpg f q (Some (b, n))] = Some [HeapData b]"
  "jpg_held [] [Frame2Jpg f q (Some (b, n)), Free (HeapData b), Free (HeapData b)] = None"
  "jpg_held [] [CameraFbGet (Some f), Free (FrameData (buf f))] = None"
  by simp_all

section \<open>The claims about the handlers\<close>

text \<open>
  C2, at the input where it fails: the camera delivers a frame that is not a JPEG and
  \<^verbatim>\<open>frame2jpg\<close> fails. \<^verbatim>\<open>capture_handler\<close> then releases the frame and returns
  \<open>ESP_FAIL\<close> without a call of \<^verbatim>\<open>httpd_resp_send_500\<close> (or of any other send), whereas
  on a failed capture it does send the 500 response before it returns \<open>ESP_FAIL\<close>.
\<close>

theorem capture_conversion_failure:
  "capture_handler
     \<lparr>cap_acq = Some \<lparr>buf = ''rgb'', len = 3, format = PIXFORMAT_RAW\<rparr>, cap_type = ESP_OK,
      cap_conv = None, cap_send = ESP_OK\<rparr> [] =
     (ESP_FAIL,
      [CameraFbGet (Some \<lparr>buf = ''rgb'', len = 3, format = PIXFORMAT_RAW\<rparr>),
       RespSetType ''image/jpeg'' ESP_OK,
       RespSetHdr ''Content-Disposition'' ''inline; filename=capture.jpg'',
       Frame2Jpg \<lparr>buf = ''rgb'', len = 3, format = PIXFORMAT_RAW\<rparr> 80 None,
       CameraFbReturn \<lparr>buf = ''rgb'', len = 3, format = PIXFORMAT_RAW\<rparr>]) \<and>
   capture_handler \<lparr>cap_acq = None, cap_type = ESP_OK, cap_conv = None, cap_send = ESP_OK\<rparr> [] =
     (ESP_FAIL, [CameraFbGet None, SerialPrintln ''Camera capture failed'', RespSend500])"
  by (simp add: capture_handler_def call_defs)


text \<open>
  C3, as the specification has it: the bytes of a part are written boundary first, then
  the header, then the body. With one JPEG frame of three bytes sent, the chunks written
  are the header, the body and the boundary, in this order, so the stream does not begin
  with a boundary.
\<close>

theorem stream_part_counterexample:
  "chunks (final_trace (stream_handler \<lparr>type_answer = ESP_OK, stack = [], frames =
     [\<lparr>acq = Some \<lparr>buf = ''JPG'', len = 3, format = PIXFORMAT_JPEG\<rparr>, conv = None,
       w_part = ESP_OK, w_body = ESP_OK, w_bound = ESP_OK\<rparr>]\<rparr> []))
     = [STREAM_PART 3, ''JPG'', STREAM_BOUNDARY] \<and>
   chunks (final_trace (stream_handler \<lparr>type_answer = ESP_OK, stack = [], frames =
     [\<lparr>acq = Some \<lparr>buf = ''JPG'', len = 3, format = PIXFORMAT_JPEG\<rparr>, conv = None,
       w_part = ESP_OK, w_body = ESP_OK, w_bound = ESP_OK\<rparr>]\<rparr> []))
     \<noteq> [STREAM_BOUNDARY, STREAM_PART 3, ''JPG'']"
proof -
  have "STREAM_PART 3 \<noteq> STREAM_BOUNDARY"
    by (simp add: STREAM_PART_def STREAM_BOUNDARY_def CRLF_def)
  then show ?thesis
    by (simp add: stream_handler_unfold Let_def iter_paths)
qed


text \<open>
  C3, amended: for every frame the streaming handler sends (a pass of the loop in which
  the frame is acquired, converted where needed, and all three chunked writes succeed),
  the chunks written in that pass are, in this order, the header
  \<^verbatim>\<open>Content-Type: image/jpeg\r\nContent-Length: <n>\r\n\r\n\<close> with \<open>n\<close> the length of the
  frame's JPEG in decimal, then the first \<open>n\<close> bytes of the JPEG buffer (exactly \<open>n\<close> bytes
  when the buffer holds that many), then the boundary line \<^verbatim>\<open>\r\n--<boundary-token>\r\n\<close>.
  The chunks of a run of such passes are those of the passes one after the other, so the
  boundary follows each body and none precedes the first header.
\<close>

theorem stream_part_order:
  "(list_all iter_ok es \<longrightarrow>
      chunks (final_trace (stream_handler \<lparr>type_answer = ESP_OK, stack = st, frames = es\<rparr> []))
        = concat (map frame_part es)) \<and>
   (iter_ok e \<and> frame_jpeg e = Some (b, n) \<and> res s = ESP_OK \<longrightarrow>
      chunks (out (stream_iter e s)) =
        chunks (out s) @ [STREAM_PART n, take (unat n) b, STREAM_BOUNDARY]) \<and>
   (unat n \<le> length b \<longrightarrow> length (take (unat n) b) = unat n) \<and>
   STREAM_PART n =
     ''Content-Type: image/jpeg'' @ CRLF @ ''Content-Length: '' @ dec (unat n) @ CRLF @ CRLF \<and>
   STREAM_BOUNDARY = CRLF @ ''--'' @ PART_BOUNDARY @ CRLF"
proof (intro conjI impI)
  let ?s = "\<lparr>fb = None, res = ESP_OK, jpg_buf_len = 0, jpg_buf = None, part_buf = st,
              out = [RespSetType STREAM_CONTENT_TYPE ESP_OK]\<rparr>"
  {
    assume "list_all iter_ok es"
    then obtain s' where "stream_loop es ?s = Running s'"
      and "chunks (out s') = chunks (out ?s) @ concat (map frame_part es)"
      using loop_all_ok [of es ?s] by auto
    then show "chunks (final_trace
        (stream_handler \<lparr>type_answer = ESP_OK, stack = st, frames = es\<rparr> []))
        = concat (map frame_part es)"
      by (simp add: stream_handler_unfold)
  }
  {
    assume "iter_ok e \<and> frame_jpeg e = Some (b, n) \<and> res s = ESP_OK"
    then show "chunks (out (stream_iter e s)) =
        chunks (out s) @ [STREAM_PART n, take (unat n) b, STREAM_BOUNDARY]"
      by (simp add: iter_ok_step frame_part_def)
  }
  {
    assume "unat n \<le> length b"
    then show "length (take (unat n) b) = unat n"
      by simp
  }
  show "STREAM_PART n =
     ''Content-Type: image/jpeg'' @ CRLF @ ''Content-Length: '' @ dec (unat n) @ CRLF @ CRLF"
    by (simp add: STREAM_PART_def)
  show "STREAM_BOUNDARY = CRLF @ ''--'' @ PART_BOUNDARY @ CRLF"
    by (simp add: STREAM_BOUNDARY_def)
qed

theorem stream_part_order_witness:
  "list_all iter_ok
     [\<lparr>acq = Some \<lparr>buf = ''JPG'', len = 3, format = PIXFORMAT_JPEG\<rparr>, conv = None,
       w_part = ESP_OK, w_body = ESP_OK, w_bound = ESP_OK\<rparr>,
      \<lparr>acq = Some \<lparr>buf = ''rgb'', len = 3, format = PIXFORMAT_RAW\<rparr>, conv = Some (''jp'', 2),
       w_part = ESP_OK, w_body = ESP_OK, w_bound = ESP_OK\<rparr>] \<and>
   chunks (final_trace (stream_handler \<lparr>type_answer = ESP_OK, stack = [], frames =
     [\<lparr>acq = Some \<lparr>buf = ''JPG'', len = 3, format = PIXFORMAT_JPEG\<rparr>, conv = None,
       w_part = ESP_OK, w_body = ESP_OK, w_bound = ESP_OK\<rparr>,
      \<lparr>acq = Some \<lparr>buf = ''rgb'', len = 3, format = PIXFORMAT_RAW\<rparr>, conv = Some (''jp'', 2),
       w_part = ESP_OK, w_body = ESP_OK, w_bound = ESP_OK\<rparr>]\<rparr> []))
     = [STREAM_PART 3, ''JPG'', STREAM_BOUNDARY, STREAM_PART 2, ''jp'', STREAM_BOUNDARY] \<and>
   frame_jpeg \<lparr>acq = Some \<lparr>buf = ''rgb'', len = 3, format = PIXFORMAT_RAW\<rparr>,
     conv = Some (''jp'', 2), w_part = ESP_OK, w_body = ESP_OK, w_bound = ESP_OK\<rparr>
     = Some (''jp'', 2) \<and>
   chunks (out (stream_iter
     \<lparr>acq = Some \<lparr>buf = ''rgb'', len = 3, format = PIXFORMAT_RAW\<rparr>, conv = Some (''jp'', 2),
      w_part = ESP_OK, w_body = ESP_OK, w_bound = ESP_OK\<rparr>
     \<lparr>fb = None, res = ESP_OK, jpg_buf_len = 0, jpg_buf = None, part_buf = [], out = []\<rparr>))
     = [STREAM_PART 2, ''jp'', STREAM_BOUNDARY] \<and>
   unat (2 :: u32) \<le> length ''jp'' \<and> length (take (unat (2 :: u32)) ''jp'') = 2 \<and>
   STREAM_PART 2 = ''Content-Type: image/jpeg'' @ CRLF @ ''Content-Length: 2'' @ CRLF @ CRLF"
  using stream_part_order [of
      "[\<lparr>acq = Some \<lparr>buf = ''JPG'', len = 3, format = PIXFORMAT_JPEG\<rparr>, conv = None,
         w_part = ESP_OK, w_body = ESP_OK, w_bound = ESP_OK\<rparr>,
        \<lparr>acq = Some \<lparr>buf = ''rgb'', len = 3, format = PIXFORMAT_RAW\<rparr>, conv = Some (''jp'', 2),
         w_part = ESP_OK, w_body = ESP_OK, w_bound = ESP_OK\<rparr>]"
      "[]"
      "\<lparr>acq = Some \<lparr>buf = ''rgb'', len = 3, format = PIXFORMAT_RAW\<rparr>, conv = Some (''jp'', 2),
        w_part = ESP_OK, w_body = ESP_OK, w_bound = ESP_OK\<rparr>"
      "''jp''" 2
      "\<lparr>fb = None, res = ESP_OK, jpg_buf_len = 0, jpg_buf = None, part_buf = [], out = []\<rparr>"]
  by (simp add: iter_ok_def frame_jpeg_def frame_part_def dec.simps [of 2] digit_def)


text \<open>
  C4: in the single-capture handler and in the streaming handler, on every path, each
  frame buffer that \<^verbatim>\<open>esp_camera_fb_get\<close> hands out is passed to
  \<^verbatim>\<open>esp_camera_fb_return\<close> once, after it was acquired, and never a second time. For
  the streaming handler this holds of the trace it has produced at its return and,
  while it is running, at every loop head; the environments range over capture
  failures, conversion failures and write failures.
\<close>

theorem frame_buffer_released_once:
  "fb_held [] (snd (capture_handler cenv [])) = Some [] \<and>
   released (snd (capture_handler cenv [])) = acquired (snd (capture_handler cenv [])) \<and>
   fb_held [] (final_trace (stream_handler env [])) = Some [] \<and>
   released (final_trace (stream_handler env [])) = acquired (final_trace (stream_handler env []))"
  by (simp add: capture_held capture_balanced stream_handler_held stream_handler_balanced)


text \<open>
  C6: when \<open>N\<close> passes in which everything succeeds are followed by a pass in which a
  frame is acquired and a chunked write fails, the loop is still running after the \<open>N\<close>
  passes, returns the error of the failed write in pass \<open>N + 1\<close>, has then called
  \<^verbatim>\<open>esp_camera_fb_get\<close> \<open>N + 1\<close> times, and calls it no more from the failed write on,
  whatever the environment would have answered next. And as long as every call
  succeeds the loop does not return, however many passes that is.
\<close>

theorem stream_loop_exit:
  "(list_all iter_ok oks \<longrightarrow>
      result (stream_handler \<lparr>type_answer = ESP_OK, stack = st, frames = oks\<rparr> []) = None) \<and>
   (list_all iter_ok oks \<and> write_fails bad \<longrightarrow>
      result (stream_handler \<lparr>type_answer = ESP_OK, stack = st, frames = oks @ bad # rest\<rparr> [])
        = Some (first_failure bad) \<and>
      first_failure bad \<noteq> ESP_OK \<and>
      acquire_calls (final_trace
        (stream_handler \<lparr>type_answer = ESP_OK, stack = st, frames = oks @ bad # rest\<rparr> []))
        = length oks + 1 \<and>
      acquire_calls (from_failed_write (final_trace
        (stream_handler \<lparr>type_answer = ESP_OK, stack = st, frames = oks @ bad # rest\<rparr> [])))
        = 0)"
proof (intro conjI impI)
  let ?s = "\<lparr>fb = None, res = ESP_OK, jpg_buf_len = 0, jpg_buf = None, part_buf = st,
              out = [RespSetType STREAM_CONTENT_TYPE ESP_OK]\<rparr>"
  have h: "stream_handler \<lparr>type_answer = ESP_OK, stack = st, frames = es\<rparr> [] = stream_loop es ?s"
    for es
    by (simp add: stream_handler_unfold)
  have init: "res ?s = ESP_OK" "jpg_buf ?s = None" "acquire_calls (out ?s) = 0"
    "from_failed_write (out ?s) = []"
    by simp_all
  {
    assume "list_all iter_ok oks"
    from loop_all_ok [OF this init(1,2)] obtain s' where "stream_loop oks ?s = Running s'"
      by blast
    then show "result (stream_handler \<lparr>type_answer = ESP_OK, stack = st, frames = oks\<rparr> []) = None"
      by (simp add: h)
  }
  assume a: "list_all iter_ok oks \<and> write_fails bad"
  then have oks: "list_all iter_ok oks" and bad: "write_fails bad"
    by simp_all
  from loop_all_ok [OF oks init(1,2)] obtain s' where s': "stream_loop oks ?s = Running s'"
    "res s' = ESP_OK" "jpg_buf s' = None"
    "acquire_calls (out s') = acquire_calls (out ?s) + length oks"
    "from_failed_write (out ?s) = [] \<longrightarrow> from_failed_write (out s') = []"
    by blast
  have r: "stream_handler \<lparr>type_answer = ESP_OK, stack = st, frames = oks @ bad # rest\<rparr> [] =
      Returned (first_failure bad) (out (stream_iter bad s'))"
    unfolding h by (simp only: stream_loop_append s'(1) outcome.case loop_write_fails [OF bad s'(2)])
  show "result (stream_handler \<lparr>type_answer = ESP_OK, stack = st, frames = oks @ bad # rest\<rparr> [])
      = Some (first_failure bad)"
    by (simp add: r)
  show "first_failure bad \<noteq> ESP_OK"
    using bad s'(2) by (rule write_fails_step)
  show "acquire_calls (final_trace
      (stream_handler \<lparr>type_answer = ESP_OK, stack = st, frames = oks @ bad # rest\<rparr> []))
      = length oks + 1"
    using s'(4) by (simp add: r iter_acquire_calls [OF s'(2,3)])
  from s'(5) have "from_failed_write (out s') = []"
    by simp
  with bad s'(2) have "acquire_calls (from_failed_write (out (stream_iter bad s'))) = 0"
    by (rule write_fails_step)
  then show "acquire_calls (from_failed_write (final_trace
      (stream_handler \<lparr>type_answer = ESP_OK, stack = st, frames = oks @ bad # rest\<rparr> []))) = 0"
    by (simp add: r)
qed

theorem stream_loop_exit_witness:
  "list_all iter_ok
     [\<lparr>acq = Some \<lparr>buf = ''JPG'', len = 3, format = PIXFORMAT_JPEG\<rparr>, conv = None,
       w_part = ESP_OK, w_body = ESP_OK, w_bound = ESP_OK\<rparr>,
      \<lparr>acq = Some \<lparr>buf = ''rgb'', len = 3, format = PIXFORMAT_RAW\<rparr>, conv = Some (''jp'', 2),
       w_part = ESP_OK, w_body = ESP_OK, w_bound = ESP_OK\<rparr>] \<and>
   write_fails
     \<lparr>acq = Some \<lparr>buf = ''JPG'', len = 3, format = PIXFORMAT_JPEG\<rparr>, conv = None,
      w_part = ESP_OK, w_body = ESP_FAIL, w_bound = ESP_OK\<rparr> \<and>
   result (stream_handler \<lparr>type_answer = ESP_OK, stack = [], frames =
     [\<lparr>acq = Some \<lparr>buf = ''JPG'', len = 3, format = PIXFORMAT_JPEG\<rparr>, conv = None,
       w_part = ESP_OK, w_body = ESP_OK, w_bound = ESP_OK\<rparr>,
      \<lparr>acq = Some \<lparr>buf = ''rgb'', len = 3, format = PIXFORMAT_RAW\<rparr>, conv = Some (''jp'', 2),
       w_part = ESP_OK, w_body = ESP_OK, w_bound = ESP_OK\<rparr>]\<rparr> []) = None \<and>
   result (stream_handler \<lparr>type_answer = ESP_OK, stack = [], frames =
     [\<lparr>acq = Some \<lparr>buf = ''JPG'', len = 3, format = PIXFORMAT_JPEG\<rparr>, conv = None,
       w_part = ESP_OK, w_body = ESP_OK, w_bound = ESP_OK\<rparr>,
      \<lparr>acq = Some \<lparr>buf = ''rgb'', len = 3, format = PIXFORMAT_RAW\<rparr>, conv = Some (''jp'', 2),
       w_part = ESP_OK, w_body = ESP_OK, w_bound = ESP_OK\<rparr>,
      \<lparr>acq = Some \<lparr>buf = ''JPG'', len = 3, format = PIXFORMAT_JPEG\<rparr>, conv = None,
       w_part = ESP_OK, w_body = ESP_FAIL, w_bound = ESP_OK\<rparr>,
      \<lparr>acq = None, conv = None, w_part = ESP_OK, w_body = ESP_OK, w_bound = ESP_OK\<rparr>]\<rparr> [])
     = Some ESP_FAIL \<and>
   acquire_calls (final_trace (stream_handler \<lparr>type_answer = ESP_OK, stack = [], frames =
     [\<lparr>acq = Some \<lparr>buf = ''JPG'', len = 3, format = PIXFORMAT_JPEG\<rparr>, conv = None,
       w_part = ESP_OK, w_body = ESP_OK, w_bound = ESP_OK\<rparr>,
      \<lparr>acq = Some \<lparr>buf = ''rgb'', len = 3, format = PIXFORMAT_RAW\<rparr>, conv = Some (''jp'', 2),
       w_part = ESP_OK, w_body = ESP_OK, w_bound = ESP_OK\<rparr>,
      \<lparr>acq = Some \<lparr>buf = ''JPG'', len = 3, format = PIXFORMAT_JPEG\<rparr>, conv = None,
       w_part = ESP_OK, w_body = ESP_FAIL, w_bound = ESP_OK\<rparr>,
      \<lparr>acq = None, conv = None, w_part = ESP_OK, w_body = ESP_OK, w_bound = ESP_OK\<rparr>]\<rparr> []))
     = 3 \<and>
   acquire_calls (from_failed_write (final_trace (stream_handler
     \<lparr>type_answer = ESP_OK, stack = [], frames =
     [\<lparr>acq = Some \<lparr>buf = ''JPG'', len = 3, format = PIXFORMAT_JPEG\<rparr>, conv = None,
       w_part = ESP_OK, w_body = ESP_OK, w_bound = ESP_OK\<rparr>,
      \<lparr>acq = Some \<lparr>buf = ''rgb'', len = 3, format = PIXFORMAT_RAW\<rparr>, conv = Some (''jp'', 2),
       w_part = ESP_OK, w_body = ESP_OK, w_bound = ESP_OK\<rparr>,
      \<lparr>acq = Some \<lparr>buf = ''JPG'', len = 3, format = PIXFORMAT_JPEG\<rparr>, conv = None,
       w_part = ESP_OK, w_body = ESP_FAIL, w_bound = ESP_OK\<rparr>,
      \<lparr>acq = None, conv = None, w_part = ESP_OK, w_body = ESP_OK, w_bound = ESP_OK\<rparr>]\<rparr> [])))
     = 0"
  using stream_loop_exit [of
      "[\<lparr>acq = Some \<lparr>buf = ''JPG'', len = 3, format = PIXFORMAT_JPEG\<rparr>, conv = None,
         w_part = ESP_OK, w_body = ESP_OK, w_bound = ESP_OK\<rparr>,
        \<lparr>acq = Some \<lparr>buf = ''rgb'', len = 3, format = PIXFORMAT_RAW\<rparr>, conv = Some (''jp'', 2),
         w_part = ESP_OK, w_body = ESP_OK, w_bound = ESP_OK\<rparr>]"
      "[]"
      "\<lparr>acq = Some \<lparr>buf = ''JPG'', len = 3, format = PIXFORMAT_JPEG\<rparr>, conv = None,
        w_part = ESP_OK, w_body = ESP_FAIL, w_bound = ESP_OK\<rparr>"
      "[\<lparr>acq = None, conv = None, w_part = ESP_OK, w_body = ESP_OK, w_bound = ESP_OK\<rparr>]"]
  by (simp add: iter_ok_def write_fails_def frame_jpeg_def first_failure_def ESP_FAIL_not_OK)


text \<open>
  C7: in both handlers, each buffer that a successful \<^verbatim>\<open>frame2jpg\<close> allocated is passed
  to \<^verbatim>\<open>free\<close> once, after the allocation, whether its bytes could be written out or
  not; and nothing else is freed, in particular no frame buffer's data.
\<close>

theorem converted_buffer_freed_once:
  "jpg_held [] (snd (capture_handler cenv [])) = Some [] \<and>
   freed (snd (capture_handler cenv [])) = allocated (snd (capture_handler cenv [])) \<and>
   jpg_held [] (final_trace (stream_handler env [])) = Some [] \<and>
   freed (final_trace (stream_handler env [])) = allocated (final_trace (stream_handler env []))"
  by (simp add: capture_held capture_balanced stream_handler_held stream_handler_balanced)


text \<open>
  C10: for every 32-bit length \<open>n\<close> the part header has at most 56 characters, fewer than
  the bound 64 given to \<^verbatim>\<open>snprintf\<close>. So \<^verbatim>\<open>snprintf\<close> stores the header untruncated,
  returns its length, and the chunk that the loop body then sends with that length is
  the whole header.
\<close>

theorem stream_part_fits:
  "length (STREAM_PART n) \<le> 56 \<and>
   snprintf dst 64 (STREAM_PART n) =
     (STREAM_PART n @ NUL # drop (Suc (length (STREAM_PART n))) dst, length (STREAM_PART n)) \<and>
   take (snd (snprintf dst 64 (STREAM_PART n))) (fst (snprintf dst 64 (STREAM_PART n))) =
     STREAM_PART n \<and>
   (res s = ESP_OK \<longrightarrow>
      hd (drop (length (out s)) (out (stream_send e s))) =
        RespSendChunk (STREAM_PART (jpg_buf_len s)) (w_part e))"
  by (simp add: length_STREAM_PART_le snprintf_STREAM_PART send_stage)

theorem stream_part_fits_witness:
  "length (STREAM_PART 4294967295) = 56 \<and>
   snd (snprintf [] 64 (STREAM_PART 4294967295)) = 56 \<and>
   hd (out (stream_send
     \<lparr>acq = None, conv = None, w_part = ESP_OK, w_body = ESP_OK, w_bound = ESP_OK\<rparr>
     \<lparr>fb = None, res = ESP_OK, jpg_buf_len = 4294967295, jpg_buf = Some (HeapData []),
      part_buf = [], out = []\<rparr>)) = RespSendChunk (STREAM_PART 4294967295) ESP_OK"
proof -
  have d: "dec 4294967295 = ''4294967295''"
    by (simp add: dec.simps digit_def)
  have l: "length (STREAM_PART 4294967295) = 56"
    by (simp add: STREAM_PART_def CRLF_def d)
  show ?thesis
    using stream_part_fits [of 4294967295 "[]"
      "\<lparr>fb = None, res = ESP_OK, jpg_buf_len = 4294967295, jpg_buf = Some (HeapData []),
        part_buf = [], out = []\<rparr>"
      "\<lparr>acq = None, conv = None, w_part = ESP_OK, w_body = ESP_OK, w_bound = ESP_OK\<rparr>"]
    by (simp add: l)
qed

end
